theory Spec2Isabelle
  imports Main "HOL-Library.Log_Nat"
begin

section \<open>Text primitives of the host language\<close>

text \<open>
  The program is Python. Its \<^verbatim>\<open>str\<close> values are modelled as \<^typ>\<open>string\<close>, restricted to
  ASCII text: a character below 128 stands for the code point of the same number. The
  functions below are the \<^verbatim>\<open>str\<close> methods the program calls, on that subset.
\<close>

definition is_space :: "char \<Rightarrow> bool" where
  \<comment> \<open>the ASCII characters for which \<^verbatim>\<open>str.isspace\<close> holds: 9..13 and 28..32\<close>
  "is_space c = (let n = (of_char c :: nat) in (9 \<le> n \<and> n \<le> 13) \<or> (28 \<le> n \<and> n \<le> 32))"

definition lstrip :: "string \<Rightarrow> string" where
  "lstrip s = dropWhile is_space s"

definition rstrip :: "string \<Rightarrow> string" where
  "rstrip s = rev (dropWhile is_space (rev s))"

definition strip :: "string \<Rightarrow> string" where
  \<comment> \<open>\<^verbatim>\<open>s.strip()\<close>\<close>
  "strip s = rstrip (lstrip s)"

definition strip_chars :: "char \<Rightarrow> string \<Rightarrow> string" where
  \<comment> \<open>\<^verbatim>\<open>s.strip(c)\<close> for a one-character argument\<close>
  "strip_chars q s = rev (dropWhile (\<lambda>c. c = q) (rev (dropWhile (\<lambda>c. c = q) s)))"

definition upper_char :: "char \<Rightarrow> char" where
  "upper_char c =
     (case map_of (zip ''abcdefghijklmnopqrstuvwxyz'' ''ABCDEFGHIJKLMNOPQRSTUVWXYZ'') c of
        Some u \<Rightarrow> u
      | None \<Rightarrow> c)"

definition upper :: "string \<Rightarrow> string" where
  \<comment> \<open>\<^verbatim>\<open>s.upper()\<close>\<close>
  "upper s = map upper_char s"

definition startswith :: "string \<Rightarrow> string \<Rightarrow> bool" where
  \<comment> \<open>\<^verbatim>\<open>s.startswith(p)\<close>\<close>
  "startswith s p = (take (length p) s = p)"

definition endswith :: "string \<Rightarrow> string \<Rightarrow> bool" where
  \<comment> \<open>\<^verbatim>\<open>s.endswith(p)\<close>\<close>
  "endswith s p = (length p \<le> length s \<and> drop (length s - length p) s = p)"

fun contains :: "string \<Rightarrow> string \<Rightarrow> bool" where
  \<comment> \<open>\<^verbatim>\<open>p in s\<close>, written \<open>contains s p\<close>\<close>
  "contains [] p = (p = [])"
| "contains (c # cs) p = (startswith (c # cs) p \<or> contains cs p)"

fun split_ws_aux :: "string \<Rightarrow> string \<Rightarrow> string list" where
  "split_ws_aux cur [] = (if cur = [] then [] else [cur])"
| "split_ws_aux cur (c # cs) =
     (if is_space c then (if cur = [] then split_ws_aux [] cs else cur # split_ws_aux [] cs)
      else split_ws_aux (cur @ [c]) cs)"

definition split_ws :: "string \<Rightarrow> string list" where
  \<comment> \<open>\<^verbatim>\<open>s.split()\<close>: the maximal runs of non-space characters\<close>
  "split_ws s = split_ws_aux [] s"

fun split_sep_aux :: "char \<Rightarrow> string \<Rightarrow> string \<Rightarrow> string list" where
  "split_sep_aux sep cur [] = [cur]"
| "split_sep_aux sep cur (c # cs) =
     (if c = sep then cur # split_sep_aux sep [] cs else split_sep_aux sep (cur @ [c]) cs)"

definition split_sep :: "string \<Rightarrow> char \<Rightarrow> string list" where
  \<comment> \<open>\<^verbatim>\<open>s.split(sep)\<close> for a one-character separator; never the empty list\<close>
  "split_sep s sep = split_sep_aux sep [] s"

definition newline :: char where
  "newline = CHR 0x0A"

section \<open>External commands\<close>

text \<open>
  What \<^verbatim>\<open>subprocess.run(..., capture_output=True, text=True)\<close> hands back: the exit status and
  the two captured streams. A call that cannot be made at all (a missing binary, an argument
  that is not a string) raises; the exception is kept as its \<^verbatim>\<open>str()\<close> text.
\<close>

record proc_result =
  returncode :: int
  stdout :: string
  stderr :: string

datatype run_error = RunError string

type_synonym shell = "string \<Rightarrow> run_error + proc_result"
  \<comment> \<open>\<^verbatim>\<open>subprocess.run(cmd, shell=True, ...)\<close> as a function of the command line; the host does
      not change during one collection\<close>

definition run_command :: "shell \<Rightarrow> string \<Rightarrow> run_error + string" where
  \<comment> \<open>\<^verbatim>\<open>check=True\<close> turns a non-zero exit into \<^verbatim>\<open>CalledProcessError\<close>, which is caught at once;
      any other exception of \<^verbatim>\<open>subprocess.run\<close> passes through\<close>
  "run_command sh cmd =
     (case sh cmd of
        Inl e \<Rightarrow> Inl e
      | Inr result \<Rightarrow>
          if returncode result = 0 then Inr (strip (stdout result))
          else Inr (''Error: '' @ stderr result))"

definition sh_const :: "proc_result \<Rightarrow> shell" where
  \<comment> \<open>a host on which every command line ends with the same result\<close>
  "sh_const r cmd = Inr r"

section \<open>Floating-point numbers of the host language\<close>

text \<open>
  A Python \<^verbatim>\<open>float\<close> is an IEEE 754 binary64 number: a finite value, kept here as the
  rational it denotes (minus zero is zero), an infinity or a NaN. \<open>to_double\<close> rounds a
  rational to the nearest binary64 value, ties to even, which is what \<^verbatim>\<open>float(str)\<close> and the
  product \<^verbatim>\<open>num * multiplier\<close> do; a rounded magnitude of \<open>2 ^ 1024\<close> or more is an infinity.
\<close>

datatype pyfloat = Finite rat | PosInf | NegInf | NaN

datatype num_error = ValueError | OverflowError

definition pow2 :: "int \<Rightarrow> rat" where
  "pow2 k = (if 0 \<le> k then 2 ^ nat k else 1 / 2 ^ nat (- k))"

definition pow10 :: "int \<Rightarrow> rat" where
  "pow10 k = (if 0 \<le> k then 10 ^ nat k else 1 / 10 ^ nat (- k))"

definition round_half_even :: "rat \<Rightarrow> int" where
  "round_half_even x =
     (let f = \<lfloor>x\<rfloor>; d = x - of_int f
      in if d < 1 / 2 then f else if 1 / 2 < d then f + 1 else if even f then f else f + 1)"

definition binade :: "rat \<Rightarrow> int" where
  \<comment> \<open>for \<open>0 < x\<close>, the \<open>e\<close> with \<open>2 ^ e \<le> x < 2 ^ (e + 1)\<close>\<close>
  "binade x = (if 1 \<le> x then bitlen \<lfloor>x\<rfloor> - 1 else - bitlen (\<lceil>1 / x\<rceil> - 1))"

definition to_double :: "rat \<Rightarrow> pyfloat" where
  "to_double x =
     (if x = 0 then Finite 0
      else
        let a = \<bar>x\<bar>;
            ulp = pow2 (max (binade a) (- 1022) - 52);
            r = of_int (round_half_even (a / ulp)) * ulp
        in if 0 < r \<and> 1024 \<le> binade r then (if x < 0 then NegInf else PosInf)
           else Finite (if x < 0 then - r else r))"

definition float_mul_int :: "pyfloat \<Rightarrow> int \<Rightarrow> pyfloat" where
  \<comment> \<open>\<^verbatim>\<open>num * multiplier\<close> for a positive multiplier that is itself a binary64 value\<close>
  "float_mul_int num multiplier =
     (case num of Finite q \<Rightarrow> to_double (q * of_int multiplier) | other \<Rightarrow> other)"

definition int_of_float :: "pyfloat \<Rightarrow> num_error + int" where
  \<comment> \<open>\<^verbatim>\<open>int(x)\<close>: truncation towards zero; an infinity raises \<^verbatim>\<open>OverflowError\<close>, a NaN
      \<^verbatim>\<open>ValueError\<close>\<close>
  "int_of_float x =
     (case x of
        Finite q \<Rightarrow> Inr (if 0 \<le> q then \<lfloor>q\<rfloor> else - \<lfloor>- q\<rfloor>)
      | PosInf \<Rightarrow> Inl OverflowError
      | NegInf \<Rightarrow> Inl OverflowError
      | NaN \<Rightarrow> Inl ValueError)"

subsection \<open>\<^verbatim>\<open>float(str)\<close>\<close>

definition is_digit :: "char \<Rightarrow> bool" where
  "is_digit c = (let n = (of_char c :: nat) in 48 \<le> n \<and> n \<le> 57)"

definition digit_val :: "char \<Rightarrow> int" where
  "digit_val c = int (of_char c) - 48"

definition digits_val :: "string \<Rightarrow> int" where
  "digits_val ds = foldl (\<lambda>a c. 10 * a + digit_val c) 0 ds"

fun underscores_ok :: "char option \<Rightarrow> string \<Rightarrow> bool" where
  \<comment> \<open>an underscore only between two digits; the first argument is the previous character\<close>
  "underscores_ok prev [] = (prev \<noteq> Some (CHR ''_''))"
| "underscores_ok prev (c # cs) =
     (if c = CHR ''_'' then
        (case prev of Some p \<Rightarrow> is_digit p \<and> underscores_ok (Some c) cs | None \<Rightarrow> False)
      else (prev = Some (CHR ''_'') \<longrightarrow> is_digit c) \<and> underscores_ok (Some c) cs)"

definition parse_exponent :: "string \<Rightarrow> int option" where
  \<comment> \<open>what may follow the letter e: an optional sign and at least one digit\<close>
  "parse_exponent s =
     (let (sg, ds) =
            (case s of
               [] \<Rightarrow> (1, [])
             | c # cs \<Rightarrow> if c = CHR ''-'' then (- 1, cs) else if c = CHR ''+'' then (1, cs) else (1, s))
      in if ds \<noteq> [] \<and> list_all is_digit ds then Some (sg * digits_val ds) else None)"

definition parse_number :: "string \<Rightarrow> rat option" where
  \<comment> \<open>an unsigned decimal literal: digits, an optional point and digits, an optional exponent;
      at least one digit before the exponent\<close>
  "parse_number s =
     (let ip = takeWhile is_digit s;
          r1 = dropWhile is_digit s;
          (fp, r2) =
            (case r1 of
               [] \<Rightarrow> ([], [])
             | c # cs \<Rightarrow>
                 if c = CHR ''.'' then (takeWhile is_digit cs, dropWhile is_digit cs) else ([], r1));
          mant = of_int (digits_val (ip @ fp))
      in if ip = [] \<and> fp = [] then None
         else
           (case r2 of
              [] \<Rightarrow> Some (mant * pow10 (- int (length fp)))
            | c # cs \<Rightarrow>
                if c = CHR ''e'' \<or> c = CHR ''E'' then
                  (case parse_exponent cs of
                     Some ex \<Rightarrow> Some (mant * pow10 (ex - int (length fp)))
                   | None \<Rightarrow> None)
                else None))"

definition parse_abs_float :: "string \<Rightarrow> pyfloat option" where
  \<comment> \<open>an unsigned literal: a number, or \<^verbatim>\<open>inf\<close>, \<^verbatim>\<open>infinity\<close>, \<^verbatim>\<open>nan\<close> in any case\<close>
  "parse_abs_float s =
     (if upper s = ''INF'' \<or> upper s = ''INFINITY'' then Some PosInf
      else if upper s = ''NAN'' then Some NaN
      else (case parse_number s of Some q \<Rightarrow> Some (to_double q) | None \<Rightarrow> None))"

definition negate :: "pyfloat \<Rightarrow> pyfloat" where
  "negate x = (case x of Finite q \<Rightarrow> Finite (- q) | PosInf \<Rightarrow> NegInf | NegInf \<Rightarrow> PosInf | NaN \<Rightarrow> NaN)"

definition is_c_space :: "char \<Rightarrow> bool" where
  \<comment> \<open>the whitespace that \<^verbatim>\<open>float\<close> skips around an ASCII string: 9..13 and 32 (the separators
      28..31, which \<^verbatim>\<open>str.strip\<close> removes, are not part of it)\<close>
  "is_c_space c = (let n = (of_char c :: nat) in (9 \<le> n \<and> n \<le> 13) \<or> n = 32)"

definition float_strip :: "string \<Rightarrow> string" where
  "float_strip s = rev (dropWhile is_c_space (rev (dropWhile is_c_space s)))"

definition py_float :: "string \<Rightarrow> num_error + pyfloat" where
  \<comment> \<open>\<^verbatim>\<open>float(s)\<close>: surrounding whitespace is dropped, underscores between digits are dropped,
      then an optional sign and an unsigned literal; anything else raises \<^verbatim>\<open>ValueError\<close>\<close>
  "py_float s =
     (let t = float_strip s
      in if \<not> underscores_ok None t then Inl ValueError
         else
           let u = filter (\<lambda>c. c \<noteq> CHR ''_'') t;
               (neg, body) =
                 (case u of
                    [] \<Rightarrow> (False, [])
                  | c # cs \<Rightarrow>
                      if c = CHR ''-'' then (True, cs) else if c = CHR ''+'' then (False, cs)
                      else (False, u))
           in (case parse_abs_float body of
                 None \<Rightarrow> Inl ValueError
               | Some x \<Rightarrow> Inr (if neg then negate x else x)))"

section \<open>Size parser\<close>

definition units :: "(char \<times> int) list" where
  "units = [(CHR ''B'', 1), (CHR ''K'', 1024), (CHR ''M'', 1024 ^ 2), (CHR ''G'', 1024 ^ 3),
            (CHR ''T'', 1024 ^ 4)]"

fun units_loop :: "(char \<times> int) list \<Rightarrow> string \<Rightarrow> num_error + int" where
  \<comment> \<open>the loop over the unit table; only \<^verbatim>\<open>ValueError\<close> is caught\<close>
  "units_loop [] size_str = Inr 0"
| "units_loop ((unit, multiplier) # rest) size_str =
     (if endswith size_str [unit] then
        (case py_float (butlast size_str) of
           Inl ValueError \<Rightarrow> Inr 0
         | Inl OverflowError \<Rightarrow> Inl OverflowError
         | Inr num \<Rightarrow>
             (case int_of_float (float_mul_int num multiplier) of
                Inl ValueError \<Rightarrow> Inr 0
              | Inl OverflowError \<Rightarrow> Inl OverflowError
              | Inr n \<Rightarrow> Inr n))
      else units_loop rest size_str)"

definition parse_size :: "string \<Rightarrow> num_error + int" where
  "parse_size size_str =
     (if size_str = [] \<or> size_str = ''0'' then Inr 0
      else units_loop units (strip (upper size_str)))"

section \<open>Device inventory collector\<close>

text \<open>
  The listing tool prints a JSON tree. A column of a node is a string or \<^verbatim>\<open>null\<close>, and a key
  may be missing; \<^verbatim>\<open>children\<close>, when present, is the list of the node's sub-devices.
\<close>

datatype jv = JNull | JStr string

datatype device =
  Device (d_name: "jv option") (d_size: "jv option") (d_type: "jv option")
    (d_mountpoint: "jv option") (d_fstype: "jv option") (d_model: "jv option")
    (d_serial: "jv option") (d_children: "device list option")

record dev_info =
  di_name :: jv
  di_size :: int
  di_type :: jv
  di_mount_point :: jv
  di_fstype :: jv
  di_model :: jv
  di_serial :: jv

definition dict_get :: "'a option \<Rightarrow> 'a \<Rightarrow> 'a" where
  \<comment> \<open>\<^verbatim>\<open>d.get(key, default)\<close>, given the entry of the key\<close>
  "dict_get entry dflt = (case entry of None \<Rightarrow> dflt | Some v \<Rightarrow> v)"

definition py_str :: "jv \<Rightarrow> string" where
  \<comment> \<open>how an f-string renders the value\<close>
  "py_str v = (case v of JNull \<Rightarrow> ''None'' | JStr s \<Rightarrow> s)"

definition parse_size_value :: "jv \<Rightarrow> num_error + int" where
  \<comment> \<open>\<open>parse_size\<close> on a column: \<^verbatim>\<open>None\<close> is falsy and takes the first return\<close>
  "parse_size_value v = (case v of JNull \<Rightarrow> Inr 0 | JStr s \<Rightarrow> parse_size s)"

definition full_name :: "string \<Rightarrow> device \<Rightarrow> jv" where
  "full_name parent device =
     (let name = dict_get (d_name device) (JStr [])
      in if parent \<noteq> [] then JStr (parent @ py_str name) else name)"

definition make_dev_info :: "string \<Rightarrow> device \<Rightarrow> int \<Rightarrow> dev_info" where
  "make_dev_info parent device sz =
     \<lparr>di_name = full_name parent device,
      di_size = sz,
      di_type = dict_get (d_type device) (JStr []),
      di_mount_point = dict_get (d_mountpoint device) (JStr []),
      di_fstype = dict_get (d_fstype device) (JStr []),
      di_model = dict_get (d_model device) (JStr []),
      di_serial = dict_get (d_serial device) (JStr [])\<rparr>"

function extract_devices :: "device list \<Rightarrow> string \<Rightarrow> dev_info list \<Rightarrow> num_error + dev_info list" where
  \<comment> \<open>the third argument is the list \<^verbatim>\<open>devices\<close> that the nested function appends to\<close>
  "extract_devices [] parent devices = Inr devices"
| "extract_devices (device # rest) parent devices =
     (case parse_size_value (dict_get (d_size device) (JStr ''0'')) of
        Inl e \<Rightarrow> Inl e
      | Inr sz \<Rightarrow>
          (case (case d_children device of
                   None \<Rightarrow> Inr (devices @ [make_dev_info parent device sz])
                 | Some children \<Rightarrow>
                     extract_devices children (py_str (full_name parent device))
                       (devices @ [make_dev_info parent device sz])) of
             Inl e \<Rightarrow> Inl e
           | Inr devices' \<Rightarrow> extract_devices rest parent devices'))"
  by pat_completeness auto
termination
proof (relation "measure (\<lambda>(ds, parent, devices). size_list size ds)")
  fix device :: device and rest parent devices sz children
  assume "d_children device = Some children"
  then have "size_list size children < size device"
    by (cases device) simp
  then show "((children, py_str (full_name parent device),
               devices @ [make_dev_info parent device sz]),
              (device # rest, parent, devices))
             \<in> measure (\<lambda>(ds, parent, devices). size_list size ds)"
    by simp
qed simp_all

definition lsblk_cmd :: string where
  "lsblk_cmd = ''lsblk -J -o NAME,SIZE,TYPE,MOUNTPOINT,FSTYPE,MODEL,SERIAL''"

definition get_block_devices ::
  "shell \<Rightarrow> (string \<Rightarrow> device list option option) \<Rightarrow> dev_info list" where
  \<comment> \<open>the second argument is \<^verbatim>\<open>json.loads\<close>: \<open>None\<close> when it raises, otherwise the entry of the
      key \<^verbatim>\<open>blockdevices\<close> in the decoded object; every exception ends in the empty list\<close>
  "get_block_devices sh json_loads =
     (case sh lsblk_cmd of
        Inl e \<Rightarrow> []
      | Inr result \<Rightarrow>
          if returncode result \<noteq> 0 then []
          else
            (case json_loads (stdout result) of
               None \<Rightarrow> []
             | Some None \<Rightarrow> []
             | Some (Some blockdevices) \<Rightarrow>
                 (case extract_devices blockdevices [] [] of
                    Inl e \<Rightarrow> []
                  | Inr devices \<Rightarrow> devices)))"

subsection \<open>The traversal in the words of the specification\<close>

text \<open>
  Depth first: every node is listed once, together with the name prefix it is reached with;
  its children follow it directly, reached with the node's own full name as prefix, and
  its later siblings come after the whole subtree.
\<close>

function depth_first :: "string \<Rightarrow> device list \<Rightarrow> (string \<times> device) list" where
  "depth_first parent [] = []"
| "depth_first parent (device # rest) =
     (parent, device)
     # (case d_children device of
          None \<Rightarrow> []
        | Some children \<Rightarrow> depth_first (py_str (full_name parent device)) children)
     @ depth_first parent rest"
  by pat_completeness auto
termination
proof (relation "measure (\<lambda>(parent, ds). size_list size ds)")
  fix device :: device and rest :: "device list" and parent :: string and children
  assume "d_children device = Some children"
  then have "size_list size children < size device"
    by (cases device) simp
  then show "((py_str (full_name parent device), children), (parent, device # rest))
             \<in> measure (\<lambda>(parent, ds). size_list size ds)"
    by simp
qed simp_all

definition size_column :: "device \<Rightarrow> jv" where
  \<comment> \<open>\<^verbatim>\<open>device.get('size', '0')\<close>\<close>
  "size_column device = dict_get (d_size device) (JStr ''0'')"

definition size_bytes :: "device \<Rightarrow> int" where
  "size_bytes device = (case parse_size_value (size_column device) of Inr n \<Rightarrow> n | Inl e \<Rightarrow> 0)"

definition size_parses :: "device \<Rightarrow> bool" where
  "size_parses device = (case parse_size_value (size_column device) of Inr n \<Rightarrow> True | Inl e \<Rightarrow> False)"

definition emit :: "string \<times> device \<Rightarrow> dev_info" where
  "emit node = make_dev_info (fst node) (snd node) (size_bytes (snd node))"

definition leading_minus :: "jv \<Rightarrow> bool" where
  \<comment> \<open>the column is a string whose first character after leading whitespace is a minus sign\<close>
  "leading_minus v = (case v of JNull \<Rightarrow> False | JStr s \<Rightarrow> startswith (lstrip s) ''-'')"

definition sda1 :: device where
  "sda1 = Device (Some (JStr ''sda1'')) (Some (JStr ''99.5G'')) (Some (JStr ''part''))
            (Some (JStr ''/'')) (Some (JStr ''ext4'')) (Some JNull) (Some JNull) None"

definition sda :: device where
  "sda = Device (Some (JStr ''sda'')) (Some (JStr ''100G'')) (Some (JStr ''disk''))
           (Some JNull) (Some JNull) (Some (JStr ''Samsung'')) (Some (JStr ''S1'')) (Some [sda1])"

definition negative_disk :: device where
  "negative_disk = Device (Some (JStr ''sdb'')) (Some (JStr ''-1K'')) (Some (JStr ''disk''))
                     (Some JNull) (Some JNull) (Some JNull) (Some JNull) None"

definition decoded_as :: "device list \<Rightarrow> string \<Rightarrow> device list option option" where
  \<comment> \<open>a decoder under which the text read is the object with these \<^verbatim>\<open>blockdevices\<close>\<close>
  "decoded_as blockdevices text = Some (Some blockdevices)"

section \<open>Filesystem inventory collector\<close>

record filesystem =
  fs_label :: string
  fs_uuid :: string
  fs_id :: int
  fs_devices :: "string list"
  fs_total_size :: int
  fs_used :: int
  fs_free :: int
  fs_status :: string
  fs_mount_point :: string
  fs_mount_options :: string

definition quote :: char where
  "quote = CHR 0x27"

definition new_fs :: "string \<Rightarrow> string \<Rightarrow> int \<Rightarrow> filesystem" where
  \<comment> \<open>the dictionary that a \<^verbatim>\<open>Label:\<close> line creates\<close>
  "new_fs label uuid n =
     \<lparr>fs_label = label, fs_uuid = uuid, fs_id = n, fs_devices = [], fs_total_size = 0,
      fs_used = 0, fs_free = 0, fs_status = ''active'', fs_mount_point = [],
      fs_mount_options = []\<rparr>"

definition findmnt_cmd :: "string \<Rightarrow> string \<Rightarrow> string" where
  "findmnt_cmd column uuid =
     ''findmnt -t btrfs -n -o '' @ column @ '',SOURCE | grep '' @ [quote] @ uuid @ [quote]"

definition find_mount :: "shell \<Rightarrow> filesystem \<Rightarrow> filesystem" where
  \<comment> \<open>the \<^verbatim>\<open>try\<close> block that looks the mount point and the mount options up; an exception
      leaves the record as it is at that moment\<close>
  "find_mount sh fs =
     (case sh (findmnt_cmd ''TARGET'' (fs_uuid fs)) of
        Inl e \<Rightarrow> fs
      | Inr mount_result \<Rightarrow>
          if returncode mount_result = 0 then
            (case split_ws (strip (stdout mount_result)) of
               [] \<Rightarrow> fs
             | target # others \<Rightarrow>
                 (let fs' = fs\<lparr>fs_mount_point := target\<rparr>
                  in case sh (findmnt_cmd ''OPTIONS'' (fs_uuid fs)) of
                       Inl e \<Rightarrow> fs'
                     | Inr opts_result \<Rightarrow>
                         if returncode opts_result = 0 then
                           (case split_ws (strip (stdout opts_result)) of
                              [] \<Rightarrow> fs'
                            | opts # others' \<Rightarrow> fs'\<lparr>fs_mount_options := opts\<rparr>)
                         else fs'))
          else fs)"

type_synonym fs_state = "filesystem list \<times> filesystem option"
  \<comment> \<open>the variables \<^verbatim>\<open>filesystems\<close> and \<^verbatim>\<open>current_fs\<close> of the loop\<close>

definition fs_step :: "shell \<Rightarrow> fs_state \<Rightarrow> string \<Rightarrow> fs_state" where
  \<comment> \<open>the body of the loop over the lines of the listing\<close>
  "fs_step sh st raw =
     (let filesystems = fst st; current_fs = snd st; line = strip raw
      in if startswith line ''Label:'' then
           (let parts = split_ws line
            in if 4 \<le> length parts then
                 (filesystems,
                  Some (find_mount sh
                          (new_fs (strip_chars quote (parts ! 1)) (parts ! 3)
                             (int (length filesystems) + 1))))
               else st)
         else if startswith line ''Total devices:'' \<or> startswith line ''devid''
                 \<or> startswith line ''Device location:'' then
           (case current_fs of
              None \<Rightarrow> st
            | Some fs \<Rightarrow>
                if contains line ''devid'' then
                  (filesystems, Some (fs\<lparr>fs_devices := fs_devices fs @ [line]\<rparr>))
                else st)
         else if startswith line ''*** Some devices missing'' then
           (case current_fs of
              None \<Rightarrow> st
            | Some fs \<Rightarrow> (filesystems, Some (fs\<lparr>fs_status := ''degraded''\<rparr>)))
         else
           (case current_fs of
              None \<Rightarrow> st
            | Some fs \<Rightarrow> if line = [] then (filesystems @ [fs], None) else st))"

fun fs_loop :: "shell \<Rightarrow> fs_state \<Rightarrow> string list \<Rightarrow> fs_state" where
  "fs_loop sh st [] = st"
| "fs_loop sh st (raw # lines) = fs_loop sh (fs_step sh st raw) lines"

definition fs_finish :: "fs_state \<Rightarrow> filesystem list" where
  \<comment> \<open>after the loop: a record that is still open is appended\<close>
  "fs_finish st = (case snd st of None \<Rightarrow> fst st | Some fs \<Rightarrow> fst st @ [fs])"

definition parse_lines :: "shell \<Rightarrow> string list \<Rightarrow> filesystem list" where
  "parse_lines sh lines = fs_finish (fs_loop sh ([], None) lines)"


definition sh_table :: "(string \<times> proc_result) list \<Rightarrow> shell" where
  \<comment> \<open>a host that knows the listed command lines; the shell reports any other as not found\<close>
  "sh_table table cmd =
     (case map_of table cmd of
        Some r \<Rightarrow> Inr r
      | None \<Rightarrow> Inr \<lparr>returncode = 127, stdout = [], stderr = ''command not found''\<rparr>)"

definition joined :: "string list \<Rightarrow> string" where
  \<comment> \<open>the lines of a text, with a newline between two lines\<close>
  "joined lines = (case lines of [] \<Rightarrow> [] | l # ls \<Rightarrow> l @ concat (map (\<lambda>x. newline # x) ls))"

definition is_label_line :: "string \<Rightarrow> bool" where
  "is_label_line raw = (startswith (strip raw) ''Label:'' \<and> 4 \<le> length (split_ws (strip raw)))"

definition is_truncated_label_line :: "string \<Rightarrow> bool" where
  "is_truncated_label_line raw = (startswith (strip raw) ''Label:'' \<and> length (split_ws (strip raw)) < 4)"

definition is_devid_line :: "string \<Rightarrow> bool" where
  "is_devid_line raw =
     ((startswith (strip raw) ''Total devices:'' \<or> startswith (strip raw) ''devid''
       \<or> startswith (strip raw) ''Device location:'')
      \<and> contains (strip raw) ''devid'')"

definition is_missing_line :: "string \<Rightarrow> bool" where
  "is_missing_line raw = startswith (strip raw) ''*** Some devices missing''"

definition opened :: "shell \<Rightarrow> string \<Rightarrow> int \<Rightarrow> filesystem" where
  \<comment> \<open>the record that a \<^verbatim>\<open>Label:\<close> line opens as the \<open>n\<close>-th\<close>
  "opened sh raw n =
     find_mount sh
       (new_fs (strip_chars quote (split_ws (strip raw) ! 1)) (split_ws (strip raw) ! 3) n)"

definition label_data :: string where
  "label_data = ''Label: '' @ [quote] @ ''data'' @ [quote] @ ''  uuid: 1111-aaaa''"

definition label_none :: string where
  "label_none = ''Label: none  uuid: 2222-bbbb''"

definition devid_sdb :: string where
  "devid_sdb = [CHR 0x09] @ ''devid    1 size 10.00GiB used 2.02GiB path /dev/sdb''"

definition devid_sdc :: string where
  "devid_sdc = [CHR 0x09] @ ''devid    1 size 20.00GiB used 3.00GiB path /dev/sdc''"

definition no_mounts :: shell where
  \<comment> \<open>a host where no command line is known: every mount lookup fails\<close>
  "no_mounts = sh_table []"






section \<open>RAID profile collector\<close>

record raid_profile =
  rp_fs :: string
  rp_data_profile :: string
  rp_metadata_profile :: string
  rp_global_reserve :: int

fun raid_loop :: "string list \<Rightarrow> raid_profile list \<Rightarrow> raid_profile list" where
  \<comment> \<open>the loop that fills \<^verbatim>\<open>raid_info\<close>\<close>
  "raid_loop [] raid_info = raid_info"
| "raid_loop (line # lines) raid_info =
     (if contains line ''Label:'' then
        (let parts = split_ws line
         in if 4 \<le> length parts then
              raid_loop lines
                (raid_info @ [\<lparr>rp_fs = parts ! 3, rp_data_profile = ''single'',
                               rp_metadata_profile = ''single'', rp_global_reserve = 0\<rparr>])
            else raid_loop lines raid_info)
      else raid_loop lines raid_info)"

definition placeholder :: raid_profile where
  "placeholder = \<lparr>rp_fs = ''main-filesystem'', rp_data_profile = ''single'',
                   rp_metadata_profile = ''single'', rp_global_reserve = 0\<rparr>"

definition get_raid_status :: "shell \<Rightarrow> raid_profile list" where
  \<comment> \<open>\<^verbatim>\<open>raid_info\<close> is computed and not returned\<close>
  "get_raid_status sh =
     (case sh ''btrfs filesystem show'' of
        Inl e \<Rightarrow> []
      | Inr result \<Rightarrow>
          if returncode result \<noteq> 0 then []
          else
            (let raid_info = raid_loop (split_sep (stdout result) newline) []
             in [placeholder]))"

section \<open>Snapshot collector\<close>

record snapshot =
  sn_id :: string
  sn_type :: string
  sn_pre_num :: "string option"
  sn_description :: string
  sn_date :: string
  sn_user_name :: string
  sn_used_space :: int
  sn_config :: string

fun configs_loop :: "string list \<Rightarrow> string list \<Rightarrow> string list" where
  \<comment> \<open>the first token of every line that has one\<close>
  "configs_loop [] configs = configs"
| "configs_loop (line # lines) configs =
     (case split_ws (strip line) of
        [] \<Rightarrow> configs_loop lines configs
      | name # others \<Rightarrow> configs_loop lines (configs @ [name]))"

definition snap_fields :: "string \<Rightarrow> string list" where
  \<comment> \<open>\<^verbatim>\<open>snap_line.strip().split('|')\<close>\<close>
  "snap_fields snap_line = split_sep (strip snap_line) (CHR ''|'')"

definition make_snapshot :: "string \<Rightarrow> string list \<Rightarrow> snapshot" where
  \<comment> \<open>the dictionary built from a line with at least six fields\<close>
  "make_snapshot config parts =
     \<lparr>sn_id = strip (parts ! 0),
      sn_type = strip (parts ! 1),
      sn_pre_num = (if strip (parts ! 2) \<noteq> ''-'' then Some (strip (parts ! 2)) else None),
      sn_description = strip (parts ! 5),
      sn_date = strip (parts ! 3),
      sn_user_name = strip (parts ! 4),
      sn_used_space = 0,
      sn_config = config\<rparr>"

fun snap_lines_loop :: "string \<Rightarrow> string list \<Rightarrow> snapshot list \<Rightarrow> snapshot list" where
  "snap_lines_loop config [] snapshots = snapshots"
| "snap_lines_loop config (snap_line # snap_lines) snapshots =
     (let parts = snap_fields snap_line
      in if 6 \<le> length parts then
           snap_lines_loop config snap_lines (snapshots @ [make_snapshot config parts])
         else snap_lines_loop config snap_lines snapshots)"

definition snapper_list_cmd :: "string \<Rightarrow> string" where
  "snapper_list_cmd config = ''snapper -c '' @ config @ '' list''"

definition config_snapshots :: "shell \<Rightarrow> string \<Rightarrow> snapshot list \<Rightarrow> snapshot list" where
  \<comment> \<open>one round of the loop over the configurations; an exception skips the configuration\<close>
  "config_snapshots sh config snapshots =
     (case run_command sh (snapper_list_cmd config) of
        Inl e \<Rightarrow> snapshots
      | Inr snaps_output \<Rightarrow>
          snap_lines_loop config (drop 1 (split_sep snaps_output newline)) snapshots)"

fun snap_configs_loop :: "shell \<Rightarrow> string list \<Rightarrow> snapshot list \<Rightarrow> snapshot list" where
  "snap_configs_loop sh [] snapshots = snapshots"
| "snap_configs_loop sh (config # configs) snapshots =
     snap_configs_loop sh configs (config_snapshots sh config snapshots)"

definition get_snapshots :: "shell \<Rightarrow> snapshot list" where
  "get_snapshots sh =
     (case run_command sh ''snapper list-configs'' of
        Inl e \<Rightarrow> []
      | Inr configs_output \<Rightarrow>
          snap_configs_loop sh
            (configs_loop (drop 1 (split_sep configs_output newline)) []) [])"

definition snapper_host :: shell where
  \<comment> \<open>a host with the one configuration \<^verbatim>\<open>root\<close> and one snapshot in it\<close>
  "snapper_host =
     sh_table
       [(''snapper list-configs'',
         \<lparr>returncode = 0, stdout = joined [''Config | Subvolume'', ''root   | /''], stderr = []\<rparr>),
        (''snapper -c root list'',
         \<lparr>returncode = 0,
          stdout = joined [''# | Type | Pre # | Date | User | Description'',
                           ''1|single|-|2024-01-01|root|init snapshot''],
          stderr = []\<rparr>)]"

section \<open>Mutation orchestrator\<close>

text \<open>
  The actions call \<^verbatim>\<open>subprocess.run\<close> with an argument vector and \<^verbatim>\<open>os.makedirs\<close>. The host
  is a pair of functions that say how these calls end; every call that reaches the host is
  written to a trace, so that a theorem can say which calls an action makes.
\<close>

datatype event = Called "string list" | MakeDirs string

record world =
  exec :: "string list \<Rightarrow> run_error + proc_result"
  makedirs :: "string \<Rightarrow> run_error option"

datatype body = Message string | Error string

type_synonym response = "body \<times> nat"
  \<comment> \<open>the JSON body and the HTTP status\<close>

definition exc_text :: "run_error \<Rightarrow> string" where
  \<comment> \<open>\<^verbatim>\<open>str(e)\<close>\<close>
  "exc_text e = (case e of RunError text \<Rightarrow> text)"

definition none_arg_error :: run_error where
  \<comment> \<open>\<^verbatim>\<open>subprocess.run\<close> raises \<^verbatim>\<open>TypeError\<close> for an argument that is \<^verbatim>\<open>None\<close>, before any
      process is started\<close>
  "none_arg_error = RunError ''expected str, bytes or os.PathLike object, not NoneType''"

definition api_mount :: "world \<Rightarrow> string option \<Rightarrow> response \<times> event list" where
  \<comment> \<open>the argument is \<^verbatim>\<open>data.get('uuid')\<close>\<close>
  "api_mount w uuid =
     (case uuid of
        None \<Rightarrow> ((Error (exc_text none_arg_error), 500), [])
      | Some u \<Rightarrow>
          (case exec w [''blkid'', ''-U'', u] of
             Inl e \<Rightarrow> ((Error (exc_text e), 500), [Called [''blkid'', ''-U'', u]])
           | Inr result \<Rightarrow>
               (let device_path = strip (stdout result)
                in if device_path = [] then
                     ((Error (''Device with UUID '' @ u @ '' not found''), 404),
                      [Called [''blkid'', ''-U'', u]])
                   else
                     (let mount_point = ''/mnt/btrfs_'' @ take 8 u
                      in case makedirs w mount_point of
                           Some e \<Rightarrow>
                             ((Error (exc_text e), 500),
                              [Called [''blkid'', ''-U'', u], MakeDirs mount_point])
                         | None \<Rightarrow>
                             (case exec w [''mount'', device_path, mount_point] of
                                Inl e \<Rightarrow>
                                  ((Error (exc_text e), 500),
                                   [Called [''blkid'', ''-U'', u], MakeDirs mount_point,
                                    Called [''mount'', device_path, mount_point]])
                              | Inr result' \<Rightarrow>
                                  (if returncode result' = 0 then
                                     (Message (''Successfully mounted '' @ device_path @ '' to ''
                                               @ mount_point), 200)
                                   else (Error (''Mount failed: '' @ stderr result'), 500),
                                   [Called [''blkid'', ''-U'', u], MakeDirs mount_point,
                                    Called [''mount'', device_path, mount_point]]))))))"

definition valid_profiles :: "string list" where
  "valid_profiles = [''single'', ''raid0'', ''raid1'', ''raid5'', ''raid6'', ''raid10'']"

definition resize_cmd :: "string \<Rightarrow> string \<Rightarrow> string list" where
  \<comment> \<open>the primary command\<close>
  "resize_cmd profile filesystem = [''btrfs'', ''filesystem'', ''resize'', profile @ '':'', filesystem]"

definition balance_cmd :: "string \<Rightarrow> string \<Rightarrow> string list" where
  \<comment> \<open>the alternative command\<close>
  "balance_cmd profile filesystem =
     [''btrfs'', ''balance'', ''start'', ''-dconvert='' @ profile, ''-mconvert='' @ profile,
      filesystem]"

definition api_change_raid :: "world \<Rightarrow> string option \<Rightarrow> string option \<Rightarrow> response \<times> event list" where
  \<comment> \<open>the arguments are \<^verbatim>\<open>data.get('filesystem')\<close> and \<^verbatim>\<open>data.get('profile')\<close>\<close>
  "api_change_raid w filesystem profile =
     (case profile of
        None \<Rightarrow> ((Error ''Invalid RAID profile: None'', 400), [])
      | Some p \<Rightarrow>
          if p \<notin> set valid_profiles then ((Error (''Invalid RAID profile: '' @ p), 400), [])
          else
            (case filesystem of
               None \<Rightarrow> ((Error (exc_text none_arg_error), 500), [])
             | Some f \<Rightarrow>
                 (case exec w (resize_cmd p f) of
                    Inl e \<Rightarrow> ((Error (exc_text e), 500), [Called (resize_cmd p f)])
                  | Inr result \<Rightarrow>
                      if returncode result = 0 then
                        ((Message (''Successfully changed RAID profile to '' @ p), 200),
                         [Called (resize_cmd p f)])
                      else
                        (case exec w (balance_cmd p f) of
                           Inl e \<Rightarrow>
                             ((Error (exc_text e), 500),
                              [Called (resize_cmd p f), Called (balance_cmd p f)])
                         | Inr result_alt \<Rightarrow>
                             (if returncode result_alt = 0 then
                                (Message (''Successfully started RAID conversion to '' @ p), 200)
                              else
                                (Error (''RAID change failed: '' @ stderr result @ [newline]
                                        @ ''Alternative: '' @ stderr result_alt), 500),
                              [Called (resize_cmd p f), Called (balance_cmd p f)])))))"

definition host :: "(string list \<times> proc_result) list \<Rightarrow> world" where
  \<comment> \<open>a host that runs the listed argument vectors with the listed results, has no other
      program, and lets every directory be created\<close>
  "host table =
     \<lparr>exec = (\<lambda>cmd. case map_of table cmd of
                       Some r \<Rightarrow> Inr r
                     | None \<Rightarrow> Inl (RunError ''[Errno 2] No such file or directory'')),
      makedirs = (\<lambda>path. None)\<rparr>"

section \<open>Evaluation of the text primitives\<close>

lemmas str_eval = strip_def lstrip_def rstrip_def is_space_def startswith_def split_ws_def
  split_sep_def newline_def quote_def

section \<open>Properties of the command executor\<close>

text \<open>
  C2 (as stated, refuted). The claim says that the result of the executor lets the caller
  tell a failed invocation, with its exit status, from a successful one. \<open>run_command\<close>
  returns one string. A command that exits 0 after printing \<^verbatim>\<open>Error: x\<close> and a command that
  exits 1 with \<^verbatim>\<open>x\<close> on its error stream give the same value.
\<close>

theorem run_command_hides_exit_status:
  "run_command (sh_const \<lparr>returncode = 0, stdout = ''Error: x'', stderr = []\<rparr>) ''snapper list-configs''
   = run_command (sh_const \<lparr>returncode = 1, stdout = [], stderr = ''x''\<rparr>) ''snapper list-configs''"
  by (simp add: run_command_def sh_const_def strip_def lstrip_def rstrip_def is_space_def)

text \<open>
  C2 (amended). For every command that the host runs to completion, the executor does not
  raise, whatever the exit status: on exit status zero it returns the standard output with
  surrounding whitespace removed, on any other exit status it returns the text \<^verbatim>\<open>Error: \<close>
  followed by the captured error stream. Nothing else of the result is handed to the caller.
\<close>

theorem run_command_never_raises_on_exit:
  assumes "sh cmd = Inr result"
  shows "(\<exists>out. run_command sh cmd = Inr out)
         \<and> (returncode result = 0 \<longrightarrow> run_command sh cmd = Inr (strip (stdout result)))
         \<and> (returncode result \<noteq> 0 \<longrightarrow> run_command sh cmd = Inr (''Error: '' @ stderr result))"
  using assms by (simp add: run_command_def)

theorem run_command_never_raises_on_exit_witness:
  "sh_const \<lparr>returncode = 2, stdout = ''partial'', stderr = ''no such config''\<rparr> ''snapper -c root list''
     = Inr \<lparr>returncode = 2, stdout = ''partial'', stderr = ''no such config''\<rparr>
   \<and> run_command (sh_const \<lparr>returncode = 2, stdout = ''partial'', stderr = ''no such config''\<rparr>)
         ''snapper -c root list'' = Inr ''Error: no such config''"
proof -
  let ?r = "\<lparr>returncode = 2, stdout = ''partial'', stderr = ''no such config''\<rparr>"
  have h: "sh_const ?r ''snapper -c root list'' = Inr ?r"
    by (simp add: sh_const_def)
  show ?thesis
    using h run_command_never_raises_on_exit [of "sh_const ?r" "''snapper -c root list''" ?r] by simp
qed

section \<open>Properties of the size parser\<close>

text \<open>
  C5. The claim says that the size parser never raises and returns 0 on every malformed
  string. The parser catches \<^verbatim>\<open>ValueError\<close> only. On \<^verbatim>\<open>infB\<close> the unit is recognised, \<^verbatim>\<open>float\<close>
  accepts \<^verbatim>\<open>INF\<close>, and converting the infinite product to an integer raises \<^verbatim>\<open>OverflowError\<close>,
  which leaves the function.
\<close>

theorem parse_size_infinity_raises:
  "parse_size ''infB'' = Inl OverflowError"
  by code_simp

section \<open>Properties of the device inventory\<close>

subsection \<open>The size parser keeps the sign of the number\<close>

lemma pow2_pos: "0 < pow2 k"
  by (simp add: pow2_def)

lemma pow10_pos: "0 < pow10 k"
  by (simp add: pow10_def)

lemma round_half_even_nonneg: "0 \<le> x \<Longrightarrow> 0 \<le> round_half_even x"
  by (auto simp: round_half_even_def Let_def)

lemma to_double_nonneg:
  assumes "0 \<le> x" and "to_double x = Finite q"
  shows "0 \<le> q"
proof (cases "x = 0")
  case True
  with assms show ?thesis by (simp add: to_double_def)
next
  case False
  with assms(1) have pos: "0 < x" by simp
  define ulp where "ulp = pow2 (max (binade \<bar>x\<bar>) (- 1022) - 52)"
  have u: "0 < ulp" by (simp add: ulp_def pow2_pos)
  have "0 \<le> \<bar>x\<bar> / ulp" using u by simp
  then have r: "0 \<le> round_half_even (\<bar>x\<bar> / ulp)" by (rule round_half_even_nonneg)
  have "q = of_int (round_half_even (\<bar>x\<bar> / ulp)) * ulp"
    using assms(2) pos False by (simp add: to_double_def Let_def ulp_def split: if_splits)
  with r u show ?thesis by simp
qed

lemma foldl_digits_nonneg:
  "list_all is_digit ds \<Longrightarrow> 0 \<le> a \<Longrightarrow> 0 \<le> foldl (\<lambda>a c. 10 * a + digit_val c) a ds"
proof (induction ds arbitrary: a)
  case Nil
  then show ?case by simp
next
  case (Cons c cs)
  from Cons.prems have "0 \<le> digit_val c"
    by (simp add: is_digit_def digit_val_def Let_def)
  with Cons.prems have "0 \<le> 10 * a + digit_val c" by simp
  with Cons show ?case by simp
qed

lemma digits_val_nonneg: "list_all is_digit ds \<Longrightarrow> 0 \<le> digits_val ds"
  by (simp add: digits_val_def foldl_digits_nonneg)

lemma list_all_takeWhile: "list_all P (takeWhile P xs)"
  by (induction xs) simp_all

lemma mantissa_nonneg:
  "0 \<le> (of_int (digits_val (takeWhile is_digit s @ takeWhile is_digit t)) :: rat)"
  by (simp add: digits_val_nonneg list_all_takeWhile)

lemma mantissa_nonneg1:
  "0 \<le> (of_int (digits_val (takeWhile is_digit s)) :: rat)"
  by (simp add: digits_val_nonneg list_all_takeWhile)

lemma scaled_mantissa_nonneg:
  "0 \<le> rat_of_int (digits_val (takeWhile is_digit s @ takeWhile is_digit t)) * pow10 k"
  "0 \<le> rat_of_int (digits_val (takeWhile is_digit s)) * pow10 k"
  using pow10_pos [of k] mantissa_nonneg [of s t] mantissa_nonneg1 [of s]
  by simp_all

lemma parse_number_nonneg:
  assumes "parse_number s = Some q"
  shows "0 \<le> q"
  using assms
  by (auto simp: parse_number_def Let_def scaled_mantissa_nonneg
           split: list.splits if_splits option.splits prod.splits)

lemma parse_abs_float_nonneg:
  "parse_abs_float s = Some (Finite q) \<Longrightarrow> 0 \<le> q"
  by (auto simp: parse_abs_float_def split: if_splits option.splits
           dest: parse_number_nonneg to_double_nonneg)

lemma startswith_minus: "startswith s ''-'' \<longleftrightarrow> (\<exists>cs. s = CHR ''-'' # cs)"
  by (cases s) (auto simp: startswith_def)

lemma underscores_ok_head: "underscores_ok None (c # cs) \<Longrightarrow> c \<noteq> CHR ''_''"
  by (auto split: if_splits)

lemma py_float_negative:
  assumes "py_float s = Inr (Finite q)" and "q < 0"
  shows "startswith (float_strip s) ''-''"
proof (cases "float_strip s")
  case Nil
  with assms show ?thesis
    by (auto simp: py_float_def Let_def split: if_splits option.splits dest: parse_abs_float_nonneg)
next
  case (Cons c cs)
  with assms(1) have "c \<noteq> CHR ''_''"
    by (auto simp: py_float_def Let_def split: if_splits)
  with assms Cons show ?thesis
    by (auto simp: py_float_def Let_def startswith_minus negate_def
             split: if_splits option.splits pyfloat.splits dest: parse_abs_float_nonneg)
qed

lemma rev_dropWhile_prefix: "\<exists>zs. y = rev (dropWhile P (rev y)) @ zs"
proof -
  have "rev (dropWhile P (rev y)) @ rev (takeWhile P (rev y))
        = rev (takeWhile P (rev y) @ dropWhile P (rev y))"
    by (simp only: rev_append)
  also have "\<dots> = y" by simp
  finally have "y = rev (dropWhile P (rev y)) @ rev (takeWhile P (rev y))" by simp
  then show ?thesis ..
qed

lemma rstrip_head: "rstrip y = c # cs \<Longrightarrow> \<exists>zs. y = c # zs"
  using rev_dropWhile_prefix [of y is_space] by (auto simp: rstrip_def)

lemma is_c_space_is_space: "is_c_space c \<Longrightarrow> is_space c"
  by (auto simp: is_c_space_def is_space_def Let_def)

lemma float_strip_minus:
  assumes "startswith (float_strip y) ''-''"
  shows "startswith (dropWhile is_c_space y) ''-''"
proof -
  from assms obtain cs where "rev (dropWhile is_c_space (rev (dropWhile is_c_space y))) = CHR ''-'' # cs"
    by (auto simp: float_strip_def startswith_minus)
  with rev_dropWhile_prefix [of "dropWhile is_c_space y" is_c_space]
  show ?thesis by (auto simp: startswith_minus)
qed

lemma lstrip_head: "lstrip x = c # cs \<Longrightarrow> \<not> is_space c"
  unfolding lstrip_def using hd_dropWhile [of is_space x] by auto

lemma strip_head: "strip x = c # cs \<Longrightarrow> \<not> is_space c"
  unfolding strip_def using rstrip_head [of "lstrip x" c cs] lstrip_head [of x c] by auto

lemma strip_minus_lstrip: "startswith (strip x) ''-'' \<Longrightarrow> startswith (lstrip x) ''-''"
  unfolding strip_def startswith_minus using rstrip_head [of "lstrip x" "CHR ''-''"] by auto

lemma butlast_strip_minus:
  assumes "startswith (float_strip (butlast (strip x))) ''-''"
  shows "startswith (strip x) ''-''"
proof (cases "strip x")
  case Nil
  have "float_strip (butlast []) = []" by (simp add: float_strip_def)
  with assms Nil show ?thesis by (simp add: startswith_def)
next
  case (Cons c cs)
  then have "\<not> is_space c" by (rule strip_head)
  then have ns: "\<not> is_c_space c" by (auto dest: is_c_space_is_space)
  from assms have m: "startswith (dropWhile is_c_space (butlast (c # cs))) ''-''"
    unfolding Cons by (rule float_strip_minus)
  show ?thesis
  proof (cases cs)
    case Nil
    with m show ?thesis by (simp add: startswith_def)
  next
    case (Cons d ds)
    with m ns have "startswith (c # butlast cs) ''-''" by simp
    then show ?thesis unfolding \<open>strip x = c # cs\<close> by (simp add: startswith_minus)
  qed
qed

lemma is_space_upper_char: "is_space (upper_char c) = is_space c"
  by (auto simp: upper_char_def is_space_def Let_def)

lemma upper_char_minus: "upper_char c = CHR ''-'' \<Longrightarrow> c = CHR ''-''"
  by (auto simp: upper_char_def split: if_splits)

lemma lstrip_upper: "lstrip (upper s) = upper (lstrip s)"
  by (induction s) (simp_all add: lstrip_def upper_def is_space_upper_char)

lemma upper_minus_lstrip:
  "startswith (lstrip (upper s)) ''-'' \<Longrightarrow> startswith (lstrip s) ''-''"
  unfolding lstrip_upper startswith_minus
  by (cases "lstrip s") (auto simp: upper_def dest: upper_char_minus)

lemma int_of_float_mul_nonneg:
  assumes "int_of_float (float_mul_int (Finite q) m) = Inr n" and "0 \<le> q" and "0 < m"
  shows "0 \<le> n"
proof -
  from assms(2,3) have qm: "0 \<le> q * of_int m" by simp
  show ?thesis
  proof (cases "to_double (q * of_int m)")
    case (Finite r)
    with qm have "0 \<le> r" by (auto dest: to_double_nonneg)
    with assms(1) Finite show ?thesis
      by (auto simp: int_of_float_def float_mul_int_def)
  qed (use assms(1) in \<open>simp_all add: int_of_float_def float_mul_int_def\<close>)
qed

lemma units_loop_nonneg:
  assumes "units_loop us z = Inr n"
    and "list_all (\<lambda>um. 0 < snd um) us"
    and "\<not> startswith (float_strip (butlast z)) ''-''"
  shows "0 \<le> n"
  using assms
proof (induction us)
  case Nil
  then show ?case by simp
next
  case (Cons um us)
  obtain unit multiplier where um: "um = (unit, multiplier)" by (cases um)
  with Cons.prems have mpos: "0 < multiplier" by simp
  show ?case
  proof (cases "endswith z [unit]")
    case False
    with Cons um show ?thesis by simp
  next
    case True
    show ?thesis
    proof (cases "py_float (butlast z)")
      case (Inl e)
      with Cons.prems(1) um True show ?thesis by (cases e) simp_all
    next
      case (Inr num)
      show ?thesis
      proof (cases num)
        case (Finite q)
        have "0 \<le> q"
        proof (rule ccontr)
          assume "\<not> 0 \<le> q"
          then have "q < 0" by simp
          with Inr Finite have "startswith (float_strip (butlast z)) ''-''"
            by (auto intro: py_float_negative)
          with Cons.prems(3) show False by simp
        qed
        moreover from Cons.prems(1) um True Inr Finite
        have "n = 0 \<or> int_of_float (float_mul_int (Finite q) multiplier) = Inr n"
          by (auto split: sum.splits num_error.splits)
        ultimately show ?thesis using mpos by (auto dest: int_of_float_mul_nonneg)
      qed (use Cons.prems(1) um True Inr in \<open>auto simp: int_of_float_def float_mul_int_def\<close>)
    qed
  qed
qed

lemma parse_size_nonneg:
  assumes "parse_size s = Inr n" and "\<not> startswith (lstrip s) ''-''"
  shows "0 \<le> n"
proof (cases "s = [] \<or> s = ''0''")
  case True
  with assms(1) show ?thesis by (auto simp: parse_size_def)
next
  case False
  with assms(1) have u: "units_loop units (strip (upper s)) = Inr n"
    by (simp add: parse_size_def)
  have "\<not> startswith (float_strip (butlast (strip (upper s)))) ''-''"
    using assms(2) butlast_strip_minus strip_minus_lstrip upper_minus_lstrip by blast
  moreover have "list_all (\<lambda>um. 0 < snd um) units" by (simp add: units_def)
  ultimately show ?thesis using u by (rule_tac units_loop_nonneg)
qed

subsection \<open>The collector against the depth-first traversal\<close>

lemma extract_devices_result:
  "extract_devices ds parent acc = Inr out \<Longrightarrow>
     out = acc @ map emit (depth_first parent ds) \<and> list_all (\<lambda>node. size_parses (snd node)) (depth_first parent ds)"
proof (induction ds parent acc arbitrary: out rule: extract_devices.induct)
  case (1 parent devices)
  then show ?case by simp
next
  case (2 device rest parent devices)
  from "2.prems" obtain sz where sz: "parse_size_value (dict_get (d_size device) (JStr ''0'')) = Inr sz"
    by (auto split: sum.splits)
  have sb: "size_bytes device = sz" "size_parses device"
    using sz by (simp_all add: size_bytes_def size_parses_def size_column_def)
  show ?case
  proof (cases "d_children device")
    case None
    with "2.prems" sz have r: "extract_devices rest parent (devices @ [make_dev_info parent device sz]) = Inr out"
      by simp
    from "2.IH"(2) [OF sz _ r] None sb show ?thesis
      by (simp add: emit_def)
  next
    case (Some children)
    with "2.prems" sz obtain mid where
      m: "extract_devices children (py_str (full_name parent device)) (devices @ [make_dev_info parent device sz]) = Inr mid"
      and r: "extract_devices rest parent mid = Inr out"
      by (auto split: sum.splits)
    from "2.IH"(1) [OF sz Some m] "2.IH"(2) [OF sz _ r] Some m sb show ?thesis
      by (simp add: emit_def)
  qed
qed

lemma extract_devices_total:
  "list_all (\<lambda>node. size_parses (snd node)) (depth_first parent ds) \<Longrightarrow>
     extract_devices ds parent acc = Inr (acc @ map emit (depth_first parent ds))"
proof (induction ds parent acc rule: extract_devices.induct)
  case (1 parent devices)
  then show ?case by simp
next
  case (2 device rest parent devices)
  from "2.prems" have "size_parses device" by simp
  then obtain sz where sz: "parse_size_value (dict_get (d_size device) (JStr ''0'')) = Inr sz"
    by (auto simp: size_parses_def size_column_def split: sum.splits)
  have sb: "size_bytes device = sz"
    using sz by (simp add: size_bytes_def size_column_def)
  show ?case
  proof (cases "d_children device")
    case None
    with "2.prems" have p: "list_all (\<lambda>node. size_parses (snd node)) (depth_first parent rest)" by simp
    have "extract_devices rest parent (devices @ [make_dev_info parent device sz])
          = Inr ((devices @ [make_dev_info parent device sz]) @ map emit (depth_first parent rest))"
      using "2.IH"(2) [OF sz _ p] None by simp
    then show ?thesis using None sz sb by (simp add: emit_def)
  next
    case (Some children)
    with "2.prems" have pc: "list_all (\<lambda>node. size_parses (snd node)) (depth_first (py_str (full_name parent device)) children)"
      and p: "list_all (\<lambda>node. size_parses (snd node)) (depth_first parent rest)" by simp_all
    have m: "extract_devices children (py_str (full_name parent device)) (devices @ [make_dev_info parent device sz])
             = Inr ((devices @ [make_dev_info parent device sz]) @ map emit (depth_first (py_str (full_name parent device)) children))"
      using "2.IH"(1) [OF sz Some pc] .
    have "extract_devices rest parent ((devices @ [make_dev_info parent device sz]) @ map emit (depth_first (py_str (full_name parent device)) children))
          = Inr (((devices @ [make_dev_info parent device sz]) @ map emit (depth_first (py_str (full_name parent device)) children)) @ map emit (depth_first parent rest))"
      using "2.IH"(2) [OF sz _ p] Some m by simp
    then show ?thesis using Some sz sb m by (simp add: emit_def)
  qed
qed

lemma size_bytes_nonneg:
  assumes "\<not> leading_minus (size_column d)"
  shows "0 \<le> size_bytes d"
proof (cases "size_column d")
  case JNull
  then show ?thesis by (simp add: size_bytes_def parse_size_value_def)
next
  case (JStr s)
  with assms have nm: "\<not> startswith (lstrip s) ''-''" by (simp add: leading_minus_def)
  show ?thesis
  proof (cases "parse_size s")
    case (Inl e)
    with JStr show ?thesis by (simp add: size_bytes_def parse_size_value_def)
  next
    case (Inr n)
    then have "0 \<le> n" using nm by (rule parse_size_nonneg)
    with JStr Inr show ?thesis by (simp add: size_bytes_def parse_size_value_def)
  qed
qed

lemma sda_sizes: "parse_size ''100G'' = Inr 107374182400" "parse_size ''99.5G'' = Inr 106837311488"
  by code_simp+

lemma negative_size: "parse_size ''-1K'' = Inr (- 1024)"
  by code_simp

text \<open>
  C6 (as stated, refuted). The claim says that the tree \<^verbatim>\<open>sda{children:[sda1]}\<close>, as the listing
  tool prints it, flattens to a record named \<^verbatim>\<open>sda\<close> and a record named \<^verbatim>\<open>sda1\<close>. The child
  node already carries the name \<^verbatim>\<open>sda1\<close>, and the collector puts the parent's name in front
  of it: the second record is named \<^verbatim>\<open>sdasda1\<close>, and no record is named \<^verbatim>\<open>sda1\<close>.
\<close>

theorem extract_devices_sda_names:
  "extract_devices [sda] [] [] =
     Inr [\<lparr>di_name = JStr ''sda'', di_size = 107374182400, di_type = JStr ''disk'',
            di_mount_point = JNull, di_fstype = JNull, di_model = JStr ''Samsung'',
            di_serial = JStr ''S1''\<rparr>,
          \<lparr>di_name = JStr ''sdasda1'', di_size = 106837311488, di_type = JStr ''part'',
            di_mount_point = JStr ''/'', di_fstype = JStr ''ext4'', di_model = JNull,
            di_serial = JNull\<rparr>]"
  by (simp add: sda_def sda1_def dict_get_def parse_size_value_def sda_sizes make_dev_info_def
        full_name_def py_str_def)

text \<open>
  C6 (amended). Device-tree flattening is a depth-first traversal: when every size column
  parses, the collector appends exactly one record per node, in depth-first order, a node
  before its children and the children before the later siblings. A node reached with a
  non-empty prefix is named by the prefix followed by its own name, and its children are
  reached with that full name as their prefix; a top-level node keeps its own name. The
  other columns of a record are the node's own. For the tree \<^verbatim>\<open>sda{children:[sda1]}\<close> the list
  holds a record named \<^verbatim>\<open>sda\<close> and then a record named \<^verbatim>\<open>sdasda1\<close> that carries the size,
  type, mount point, filesystem type, model and serial of \<^verbatim>\<open>sda1\<close>.
\<close>

theorem extract_devices_depth_first:
  "(list_all (\<lambda>node. size_parses (snd node)) (depth_first parent ds) \<longrightarrow>
      extract_devices ds parent devices = Inr (devices @ map emit (depth_first parent ds)))
   \<and> depth_first parent (device # rest) =
       (parent, device)
       # depth_first (py_str (full_name parent device))
           (case d_children device of None \<Rightarrow> [] | Some children \<Rightarrow> children)
       @ depth_first parent rest
   \<and> (prefix \<noteq> [] \<longrightarrow>
        di_name (emit (prefix, device)) = JStr (prefix @ py_str (dict_get (d_name device) (JStr []))))
   \<and> di_name (emit ([], device)) = dict_get (d_name device) (JStr [])
   \<and> di_type (emit (prefix, device)) = dict_get (d_type device) (JStr [])
   \<and> di_mount_point (emit (prefix, device)) = dict_get (d_mountpoint device) (JStr [])
   \<and> di_fstype (emit (prefix, device)) = dict_get (d_fstype device) (JStr [])
   \<and> di_model (emit (prefix, device)) = dict_get (d_model device) (JStr [])
   \<and> di_serial (emit (prefix, device)) = dict_get (d_serial device) (JStr [])
   \<and> map emit (depth_first [] [sda]) = [emit ([], sda), emit (''sda'', sda1)]
   \<and> di_name (emit ([], sda)) = JStr ''sda''
   \<and> di_name (emit (''sda'', sda1)) = JStr ''sdasda1''
   \<and> di_size (emit (''sda'', sda1)) = 106837311488"
proof -
  have "depth_first parent (device # rest) =
          (parent, device)
          # depth_first (py_str (full_name parent device))
              (case d_children device of None \<Rightarrow> [] | Some children \<Rightarrow> children)
          @ depth_first parent rest"
    by (simp split: option.splits)
  moreover have "map emit (depth_first [] [sda]) = [emit ([], sda), emit (''sda'', sda1)]"
    by (simp add: sda_def sda1_def full_name_def dict_get_def py_str_def)
  moreover have "di_size (emit (''sda'', sda1)) = 106837311488"
    by (simp add: emit_def make_dev_info_def size_bytes_def size_column_def sda1_def dict_get_def
          parse_size_value_def sda_sizes)
  moreover have "di_name (emit ([], sda)) = JStr ''sda''"
    "di_name (emit (''sda'', sda1)) = JStr ''sdasda1''"
    by (simp_all add: emit_def make_dev_info_def full_name_def sda_def sda1_def dict_get_def
          py_str_def)
  ultimately show ?thesis
    by (simp add: extract_devices_total emit_def make_dev_info_def full_name_def)
qed

theorem extract_devices_depth_first_witness:
  "list_all (\<lambda>node. size_parses (snd node)) (depth_first [] [sda])
   \<and> extract_devices [sda] [] [] = Inr (map emit (depth_first [] [sda]))
   \<and> ''sda'' \<noteq> []
   \<and> di_name (emit (''sda'', sda1)) = JStr (''sda'' @ py_str (dict_get (d_name sda1) (JStr [])))"
proof -
  have h: "list_all (\<lambda>node. size_parses (snd node)) (depth_first [] [sda])"
    by (simp add: sda_def sda1_def full_name_def dict_get_def py_str_def size_parses_def
          size_column_def parse_size_value_def sda_sizes)
  show ?thesis
    using h extract_devices_depth_first [of "[]" "[sda]" "[]" sda1 "[]" "''sda''"]
    by simp
qed

text \<open>
  C9 (as stated, refuted). The claim says that every record of the inventory has a
  non-negative size, whatever strings the size columns hold. The number in front of the
  unit may carry a sign: for a node whose size column is \<^verbatim>\<open>-1K\<close> the record has size -1024.
\<close>

theorem get_block_devices_negative_size:
  "map di_size
     (get_block_devices (sh_const \<lparr>returncode = 0, stdout = ''{}'', stderr = []\<rparr>)
        (decoded_as [negative_disk]))
   = [- 1024]"
  by (simp add: get_block_devices_def sh_const_def decoded_as_def negative_disk_def dict_get_def
        parse_size_value_def negative_size make_dev_info_def)

text \<open>
  C9 (amended). For every listing whose size columns do not start, after leading
  whitespace, with a minus sign, every record that the device inventory collector returns
  has a non-negative size.
\<close>

theorem get_block_devices_size_nonneg:
  assumes "\<And>result blockdevices.
             sh lsblk_cmd = Inr result \<Longrightarrow> json_loads (stdout result) = Some (Some blockdevices) \<Longrightarrow>
             list_all (\<lambda>node. \<not> leading_minus (size_column (snd node))) (depth_first [] blockdevices)"
    and "r \<in> set (get_block_devices sh json_loads)"
  shows "0 \<le> di_size r"
proof -
  from assms(2) obtain result blockdevices devices where
    run: "sh lsblk_cmd = Inr result" and
    dec: "json_loads (stdout result) = Some (Some blockdevices)" and
    ext: "extract_devices blockdevices [] [] = Inr devices" and
    mem: "r \<in> set devices"
    by (auto simp: get_block_devices_def split: sum.splits if_splits option.splits) metis
  from ext have "devices = map emit (depth_first [] blockdevices)"
    by (auto dest: extract_devices_result)
  with mem obtain node where node: "node \<in> set (depth_first [] blockdevices)" and r: "r = emit node"
    by auto
  from assms(1) [OF run dec] node have "\<not> leading_minus (size_column (snd node))"
    by (simp add: list_all_iff)
  then have "0 \<le> size_bytes (snd node)" by (rule size_bytes_nonneg)
  with r show ?thesis by (simp add: emit_def make_dev_info_def)
qed

theorem get_block_devices_size_nonneg_witness:
  "get_block_devices (sh_const \<lparr>returncode = 0, stdout = ''{}'', stderr = []\<rparr>) (decoded_as [sda1])
     = [emit ([], sda1)]
   \<and> 0 \<le> di_size (emit ([], sda1))"
proof -
  let ?sh = "sh_const \<lparr>returncode = 0, stdout = ''{}'', stderr = []\<rparr>"
  have sz: "size_bytes sda1 = 106837311488"
    by (simp add: size_bytes_def size_column_def sda1_def dict_get_def parse_size_value_def sda_sizes)
  have out: "get_block_devices ?sh (decoded_as [sda1]) = [emit ([], sda1)]"
    by (simp add: get_block_devices_def sh_const_def decoded_as_def emit_def sz)
       (simp add: sda1_def dict_get_def parse_size_value_def sda_sizes)
  have hyp: "list_all (\<lambda>node. \<not> leading_minus (size_column (snd node))) (depth_first [] blockdevices)"
    if "?sh lsblk_cmd = Inr result" and "decoded_as [sda1] (stdout result) = Some (Some blockdevices)"
    for result blockdevices
    using that
    by (auto simp: decoded_as_def sda1_def leading_minus_def size_column_def dict_get_def
          startswith_def lstrip_def is_space_def)
  have "0 \<le> di_size (emit ([], sda1))"
    using get_block_devices_size_nonneg [of ?sh "decoded_as [sda1]" "emit ([], sda1)", OF hyp]
    by (simp add: out)
  with out show ?thesis by simp
qed

section \<open>Properties of the filesystem inventory\<close>

lemma startswith_Nil [simp]: "startswith l [] = True"
  by (simp add: startswith_def)

lemma startswith_Cons: "startswith l (c # p) \<longleftrightarrow> (\<exists>r. l = c # r \<and> startswith r p)"
  by (cases l) (auto simp: startswith_def)

lemma find_mount_fields:
  "fs_id (find_mount sh fs) = fs_id fs"
  "fs_devices (find_mount sh fs) = fs_devices fs"
  "fs_status (find_mount sh fs) = fs_status fs"
  "fs_label (find_mount sh fs) = fs_label fs"
  "fs_uuid (find_mount sh fs) = fs_uuid fs"
  by (simp_all add: find_mount_def Let_def split: sum.splits list.splits)

lemma opened_fields:
  "fs_id (opened sh raw n) = n"
  "fs_devices (opened sh raw n) = []"
  "fs_status (opened sh raw n) = ''active''"
  "fs_label (opened sh raw n) = strip_chars quote (split_ws (strip raw) ! 1)"
  "fs_uuid (opened sh raw n) = split_ws (strip raw) ! 3"
  by (simp_all add: opened_def find_mount_fields new_fs_def)

lemma step_label:
  "is_label_line raw \<Longrightarrow>
     fs_step sh (filesystems, current_fs) raw
     = (filesystems, Some (opened sh raw (int (length filesystems) + 1)))"
  by (simp add: is_label_line_def fs_step_def Let_def opened_def)

lemma step_truncated: "is_truncated_label_line raw \<Longrightarrow> fs_step sh st raw = st"
  by (simp add: is_truncated_label_line_def fs_step_def Let_def)

lemma devid_not_label: "is_devid_line raw \<Longrightarrow> \<not> startswith (strip raw) ''Label:''"
  by (auto simp: is_devid_line_def startswith_Cons)

lemma step_devid:
  assumes "is_devid_line raw"
  shows "fs_step sh (filesystems, Some fs) raw
         = (filesystems, Some (fs\<lparr>fs_devices := fs_devices fs @ [strip raw]\<rparr>))"
proof -
  from assms have "\<not> startswith (strip raw) ''Label:''" by (rule devid_not_label)
  moreover from assms have "contains (strip raw) ''devid''"
    and "startswith (strip raw) ''Total devices:'' \<or> startswith (strip raw) ''devid''
         \<or> startswith (strip raw) ''Device location:''"
    by (simp_all add: is_devid_line_def)
  ultimately show ?thesis
    by (simp add: fs_step_def Let_def)
qed

lemma missing_not_other:
  assumes "is_missing_line raw"
  shows "\<not> startswith (strip raw) ''Label:''" "\<not> startswith (strip raw) ''Total devices:''"
    "\<not> startswith (strip raw) ''devid''" "\<not> startswith (strip raw) ''Device location:''"
  using assms by (auto simp: is_missing_line_def startswith_Cons)

lemma step_missing:
  assumes "is_missing_line raw"
  shows "fs_step sh (filesystems, Some fs) raw = (filesystems, Some (fs\<lparr>fs_status := ''degraded''\<rparr>))"
  using assms missing_not_other [OF assms]
  by (simp add: fs_step_def Let_def is_missing_line_def)

lemma step_blank:
  assumes "strip raw = []"
  shows "fs_step sh (filesystems, Some fs) raw = (filesystems @ [fs], None)"
  using assms by (simp add: fs_step_def Let_def startswith_def)

lemma fs_loop_append: "fs_loop sh st (xs @ ys) = fs_loop sh (fs_loop sh st xs) ys"
  by (induction xs arbitrary: st) simp_all











lemma fixture_lines:
  "is_label_line label_data" "is_label_line label_none"
  "is_devid_line devid_sdb" "is_devid_line devid_sdc"
  "strip devid_sdb = ''devid    1 size 10.00GiB used 2.02GiB path /dev/sdb''"
  "strip devid_sdc = ''devid    1 size 20.00GiB used 3.00GiB path /dev/sdc''"
  by (simp_all add: is_label_line_def is_devid_line_def label_data_def label_none_def
        devid_sdb_def devid_sdc_def str_eval)



text \<open>
  C10. A line that starts with \<^verbatim>\<open>Label:\<close> and has fewer than four whitespace-separated tokens
  changes nothing: the list of completed records and the open record stay as they are, so
  the lines after it apply to the record that was open before it, and the result of the
  parser is the result on the input without that line.
\<close>

theorem truncated_label_line_is_dropped:
  assumes "is_truncated_label_line raw"
  shows "fs_step sh (filesystems, current_fs) raw = (filesystems, current_fs)
         \<and> fs_loop sh (filesystems, current_fs) (raw # rest) = fs_loop sh (filesystems, current_fs) rest
         \<and> parse_lines sh (before @ raw # rest) = parse_lines sh (before @ rest)"
proof -
  have step: "fs_step sh st raw = st" for st
    using assms by (rule step_truncated)
  have "fs_loop sh ([], None) (before @ raw # rest) = fs_loop sh ([], None) (before @ rest)"
    by (simp add: fs_loop_append step)
  then show ?thesis
    by (simp add: step parse_lines_def)
qed

theorem truncated_label_line_is_dropped_witness:
  "is_truncated_label_line ''Label: none''
   \<and> parse_lines no_mounts [label_data, ''Label: none'', devid_sdb, ''*** Some devices missing'', []]
     = parse_lines no_mounts [label_data, devid_sdb, ''*** Some devices missing'', []]
   \<and> map fs_devices (parse_lines no_mounts [label_data, devid_sdb, ''*** Some devices missing'', []])
     = [[''devid    1 size 10.00GiB used 2.02GiB path /dev/sdb'']]
   \<and> map fs_status (parse_lines no_mounts [label_data, devid_sdb, ''*** Some devices missing'', []])
     = [''degraded'']"
proof -
  have h: "is_truncated_label_line ''Label: none''"
    by (simp add: is_truncated_label_line_def str_eval)
  have m: "is_missing_line ''*** Some devices missing''"
    by (simp add: is_missing_line_def str_eval)
  have b: "strip [] = []"
    by (simp add: strip_def lstrip_def rstrip_def)
  have r: "parse_lines no_mounts [label_data, devid_sdb, ''*** Some devices missing'', []]
           = [(opened no_mounts label_data 1)
                \<lparr>fs_devices := [''devid    1 size 10.00GiB used 2.02GiB path /dev/sdb''],
                 fs_status := ''degraded''\<rparr>]"
    by (simp add: parse_lines_def fs_finish_def step_label step_devid step_missing step_blank
          fixture_lines m b opened_fields)
  show ?thesis
    using h truncated_label_line_is_dropped [OF h, of no_mounts "[]" None
        "[devid_sdb, ''*** Some devices missing'', []]" "[label_data]"]
    by (simp add: r opened_fields)
qed

section \<open>Properties of the RAID profile collector\<close>

text \<open>
  C8 (as stated, refuted). The claim says that the collector returns the placeholder record
  whatever the listing tool prints. When the tool does not exit with status zero, the
  collector returns the empty list: here on a host where the tool is not installed.
\<close>

theorem get_raid_status_empty_on_failure:
  "get_raid_status no_mounts = []"
  by (simp add: get_raid_status_def no_mounts_def sh_table_def)

text \<open>
  C8 (amended). When the listing tool exits with status zero, the RAID profile collector
  returns exactly one record, the placeholder with the synthetic filesystem name
  \<^verbatim>\<open>main-filesystem\<close>, data profile \<^verbatim>\<open>single\<close>, metadata profile \<^verbatim>\<open>single\<close> and global reserve 0,
  whatever the output of the tool is. When the tool exits with another status or cannot be
  run, the collector returns the empty list.
\<close>

theorem get_raid_status_placeholder:
  "(sh ''btrfs filesystem show'' = Inr result \<and> returncode result = 0 \<longrightarrow>
      get_raid_status sh = [placeholder])
   \<and> (sh ''btrfs filesystem show'' = Inr result \<and> returncode result \<noteq> 0 \<longrightarrow>
        get_raid_status sh = [])
   \<and> (sh ''btrfs filesystem show'' = Inl e \<longrightarrow> get_raid_status sh = [])
   \<and> rp_fs placeholder = ''main-filesystem''
   \<and> rp_data_profile placeholder = ''single''
   \<and> rp_metadata_profile placeholder = ''single''
   \<and> rp_global_reserve placeholder = 0"
  by (simp add: get_raid_status_def placeholder_def Let_def)

theorem get_raid_status_placeholder_witness:
  "sh_table [(''btrfs filesystem show'',
              \<lparr>returncode = 0, stdout = joined [label_data, devid_sdb, [], label_none],
               stderr = []\<rparr>)] ''btrfs filesystem show''
     = Inr \<lparr>returncode = 0, stdout = joined [label_data, devid_sdb, [], label_none], stderr = []\<rparr>
   \<and> map rp_fs (raid_loop [label_data, devid_sdb, [], label_none] []) = [''1111-aaaa'', ''2222-bbbb'']
   \<and> get_raid_status
         (sh_table [(''btrfs filesystem show'',
                     \<lparr>returncode = 0, stdout = joined [label_data, devid_sdb, [], label_none],
                      stderr = []\<rparr>)])
       = [placeholder]"
proof -
  let ?r = "\<lparr>returncode = 0, stdout = joined [label_data, devid_sdb, [], label_none], stderr = []\<rparr>"
  have h: "sh_table [(''btrfs filesystem show'', ?r)] ''btrfs filesystem show'' = Inr ?r"
    by (simp add: sh_table_def)
  have l: "map rp_fs (raid_loop [label_data, devid_sdb, [], label_none] []) = [''1111-aaaa'', ''2222-bbbb'']"
    by (simp add: label_data_def devid_sdb_def label_none_def Let_def str_eval)
  show ?thesis
    using h l get_raid_status_placeholder [of "sh_table [(''btrfs filesystem show'', ?r)]" ?r]
    by simp
qed

section \<open>Properties of the snapshot collector\<close>

lemma snap_lines_loop_filter:
  "snap_lines_loop config snap_lines snapshots
   = snapshots @ map (\<lambda>l. make_snapshot config (snap_fields l))
                   (filter (\<lambda>l. 6 \<le> length (snap_fields l)) snap_lines)"
  by (induction snap_lines arbitrary: snapshots) (simp_all add: Let_def)

text \<open>
  C7. For every listing that the executor returns for a configuration, the parser skips
  the first line, splits each remaining line, with surrounding whitespace removed, on
  \<^verbatim>\<open>|\<close>, and appends one snapshot for each line with at least six fields, in order, and
  nothing for the other lines. The fields, each with surrounding whitespace removed, are
  mapped as: id the first, type the second, pre-number the third or nothing when that is
  \<^verbatim>\<open>-\<close>, date the fourth, user the fifth, description the sixth. The listing of a header and
  the line \<^verbatim>\<open>1|single|-|2024-01-01|root|init snapshot\<close> gives exactly one snapshot, without
  pre-number.
\<close>

theorem snapshot_parser_fields:
  "(run_command sh (snapper_list_cmd config) = Inr snaps_output \<longrightarrow>
      config_snapshots sh config snapshots
      = snapshots @ map (\<lambda>l. make_snapshot config (snap_fields l))
                      (filter (\<lambda>l. 6 \<le> length (snap_fields l))
                         (drop 1 (split_sep snaps_output newline))))
   \<and> snap_fields snap_line = split_sep (strip snap_line) (CHR ''|'')
   \<and> sn_id (make_snapshot config parts) = strip (parts ! 0)
   \<and> sn_type (make_snapshot config parts) = strip (parts ! 1)
   \<and> sn_pre_num (make_snapshot config parts)
       = (if strip (parts ! 2) = ''-'' then None else Some (strip (parts ! 2)))
   \<and> sn_date (make_snapshot config parts) = strip (parts ! 3)
   \<and> sn_user_name (make_snapshot config parts) = strip (parts ! 4)
   \<and> sn_description (make_snapshot config parts) = strip (parts ! 5)
   \<and> sn_config (make_snapshot config parts) = config
   \<and> get_snapshots snapper_host
       = [\<lparr>sn_id = ''1'', sn_type = ''single'', sn_pre_num = None,
           sn_description = ''init snapshot'', sn_date = ''2024-01-01'', sn_user_name = ''root'',
           sn_used_space = 0, sn_config = ''root''\<rparr>]"
proof -
  have loop:
    "run_command sh (snapper_list_cmd config) = Inr snaps_output \<longrightarrow>
       config_snapshots sh config snapshots
       = snapshots @ map (\<lambda>l. make_snapshot config (snap_fields l))
                       (filter (\<lambda>l. 6 \<le> length (snap_fields l))
                          (drop 1 (split_sep snaps_output newline)))"
    by (simp add: config_snapshots_def snap_lines_loop_filter)
  have host:
    "get_snapshots snapper_host
     = [\<lparr>sn_id = ''1'', sn_type = ''single'', sn_pre_num = None,
         sn_description = ''init snapshot'', sn_date = ''2024-01-01'', sn_user_name = ''root'',
         sn_used_space = 0, sn_config = ''root''\<rparr>]"
    by (simp add: get_snapshots_def snapper_host_def run_command_def sh_table_def joined_def
          config_snapshots_def snapper_list_cmd_def snap_fields_def make_snapshot_def Let_def
          str_eval)
  show ?thesis
    by (intro conjI loop host) (simp_all add: make_snapshot_def snap_fields_def)
qed

theorem snapshot_parser_fields_witness:
  "run_command snapper_host (snapper_list_cmd ''root'')
     = Inr (joined [''# | Type | Pre # | Date | User | Description'',
                    ''1|single|-|2024-01-01|root|init snapshot''])
   \<and> map sn_pre_num (config_snapshots snapper_host ''root'' []) = [None]
   \<and> map sn_id (config_snapshots snapper_host ''root'' []) = [''1'']"
proof -
  have h: "run_command snapper_host (snapper_list_cmd ''root'')
           = Inr (joined [''# | Type | Pre # | Date | User | Description'',
                          ''1|single|-|2024-01-01|root|init snapshot''])"
    by (simp add: run_command_def snapper_host_def sh_table_def snapper_list_cmd_def joined_def
          str_eval)
  have f: "filter (\<lambda>l. 6 \<le> length (snap_fields l))
             (drop 1 (split_sep (joined [''# | Type | Pre # | Date | User | Description'',
                                         ''1|single|-|2024-01-01|root|init snapshot'']) newline))
           = [''1|single|-|2024-01-01|root|init snapshot'']"
    by (simp add: joined_def snap_fields_def str_eval)
  have p: "snap_fields ''1|single|-|2024-01-01|root|init snapshot''
           = [''1'', ''single'', ''-'', ''2024-01-01'', ''root'', ''init snapshot'']"
    by (simp add: snap_fields_def str_eval)
  have c: "config_snapshots snapper_host ''root'' []
           = [] @ map (\<lambda>l. make_snapshot ''root'' (snap_fields l))
                    (filter (\<lambda>l. 6 \<le> length (snap_fields l))
                       (drop 1 (split_sep (joined [''# | Type | Pre # | Date | User | Description'',
                                                   ''1|single|-|2024-01-01|root|init snapshot''])
                                  newline)))"
    using snapshot_parser_fields [of snapper_host "''root''"
        "joined [''# | Type | Pre # | Date | User | Description'',
                 ''1|single|-|2024-01-01|root|init snapshot'']" "[]", THEN conjunct1] h
    by (rule mp)
  have "config_snapshots snapper_host ''root'' []
        = [make_snapshot ''root'' [''1'', ''single'', ''-'', ''2024-01-01'', ''root'', ''init snapshot'']]"
    unfolding c f by (simp add: p)
  then show ?thesis
    using h by (simp add: make_snapshot_def strip_def lstrip_def rstrip_def is_space_def)
qed

section \<open>Properties of the mutation orchestrator\<close>

text \<open>
  C4. When the UUID lookup runs and prints no device path, the mount action answers with
  status 404 and the message that the device with this UUID was not found, and the lookup
  is the only call it makes: no directory is created and no mount command is run.
\<close>

theorem api_mount_unknown_uuid:
  assumes "exec w [''blkid'', ''-U'', u] = Inr result" and "strip (stdout result) = []"
  shows "api_mount w (Some u)
         = ((Error (''Device with UUID '' @ u @ '' not found''), 404), [Called [''blkid'', ''-U'', u]])
         \<and> MakeDirs path \<notin> set (snd (api_mount w (Some u)))
         \<and> Called (''mount'' # args) \<notin> set (snd (api_mount w (Some u)))"
  using assms by (simp add: api_mount_def)

theorem api_mount_unknown_uuid_witness:
  "exec (host [([''blkid'', ''-U'', ''dead-beef''], \<lparr>returncode = 2, stdout = [newline], stderr = []\<rparr>)])
     [''blkid'', ''-U'', ''dead-beef'']
     = Inr \<lparr>returncode = 2, stdout = [newline], stderr = []\<rparr>
   \<and> strip (stdout \<lparr>returncode = 2, stdout = [newline], stderr = []\<rparr>) = []
   \<and> api_mount (host [([''blkid'', ''-U'', ''dead-beef''], \<lparr>returncode = 2, stdout = [newline], stderr = []\<rparr>)])
         (Some ''dead-beef'')
       = ((Error ''Device with UUID dead-beef not found'', 404), [Called [''blkid'', ''-U'', ''dead-beef'']])"
proof -
  let ?r = "\<lparr>returncode = 2, stdout = [newline], stderr = []\<rparr>"
  let ?w = "host [([''blkid'', ''-U'', ''dead-beef''], ?r)]"
  have h1: "exec ?w [''blkid'', ''-U'', ''dead-beef''] = Inr ?r"
    by (simp add: host_def)
  have h2: "strip (stdout ?r) = []"
    by (simp add: str_eval)
  show ?thesis
    using h1 h2 api_mount_unknown_uuid [OF h1 h2] by simp
qed

text \<open>
  C1 (as stated, refuted). The claim says that, for a valid profile, an error is returned
  only when both commands exit with a non-zero status. On a host without the \<^verbatim>\<open>btrfs\<close>
  program the first call raises, the handler turns the exception into an error with status
  500, and no command has exited at all.
\<close>

theorem api_change_raid_error_without_exit:
  "api_change_raid (host []) (Some ''/mnt/data'') (Some ''raid1'')
   = ((Error ''[Errno 2] No such file or directory'', 500),
      [Called [''btrfs'', ''filesystem'', ''resize'', ''raid1:'', ''/mnt/data'']])"
  by (simp add: api_change_raid_def valid_profiles_def host_def resize_cmd_def exc_text_def)

text \<open>
  C1 (amended). For every request whose profile is one of the six valid profiles: when the
  resize command exits non-zero and the balance command exits zero, the action returns,
  with status 200, the message \<^verbatim>\<open>Successfully started RAID conversion to\<close> and the profile,
  which is not the message of the resize path; when both commands run, an error is
  returned exactly when both exit non-zero, with status 500 and a text that holds the
  error stream of the resize command and then that of the balance command. An error is
  returned, besides, when a command cannot be run: the exception raised becomes an error
  with status 500 and the exception's text, also for a request without filesystem.
\<close>

theorem api_change_raid_fallback:
  assumes "p \<in> set valid_profiles"
  shows "(exec w (resize_cmd p f) = Inr r \<and> returncode r \<noteq> 0
          \<and> exec w (balance_cmd p f) = Inr ra \<and> returncode ra = 0 \<longrightarrow>
            fst (api_change_raid w (Some f) (Some p))
            = (Message (''Successfully started RAID conversion to '' @ p), 200))
         \<and> ''Successfully started RAID conversion to '' @ p \<noteq> ''Successfully changed RAID profile to '' @ p
         \<and> (exec w (resize_cmd p f) = Inr r \<and> returncode r = 0 \<longrightarrow>
              fst (api_change_raid w (Some f) (Some p))
              = (Message (''Successfully changed RAID profile to '' @ p), 200))
         \<and> (exec w (resize_cmd p f) = Inr r \<and> returncode r \<noteq> 0
             \<and> exec w (balance_cmd p f) = Inr ra \<and> returncode ra \<noteq> 0 \<longrightarrow>
              fst (api_change_raid w (Some f) (Some p))
              = (Error (''RAID change failed: '' @ stderr r @ [newline] @ ''Alternative: '' @ stderr ra), 500))
         \<and> (exec w (resize_cmd p f) = Inr r \<and> exec w (balance_cmd p f) = Inr ra \<longrightarrow>
              ((\<exists>text status. fst (api_change_raid w (Some f) (Some p)) = (Error text, status))
               \<longleftrightarrow> returncode r \<noteq> 0 \<and> returncode ra \<noteq> 0))
         \<and> (exec w (resize_cmd p f) = Inl e \<longrightarrow>
              fst (api_change_raid w (Some f) (Some p)) = (Error (exc_text e), 500))
         \<and> (exec w (resize_cmd p f) = Inr r \<and> returncode r \<noteq> 0 \<and> exec w (balance_cmd p f) = Inl e \<longrightarrow>
              fst (api_change_raid w (Some f) (Some p)) = (Error (exc_text e), 500))
         \<and> fst (api_change_raid w None (Some p)) = (Error (exc_text none_arg_error), 500)"
  using assms by (auto simp: api_change_raid_def)

theorem api_change_raid_fallback_witness:
  "''raid1'' \<in> set valid_profiles
   \<and> api_change_raid
       (host [(resize_cmd ''raid1'' ''/mnt/data'', \<lparr>returncode = 1, stdout = [], stderr = ''ERROR: unable to resize''\<rparr>),
              (balance_cmd ''raid1'' ''/mnt/data'', \<lparr>returncode = 0, stdout = ''Done'', stderr = []\<rparr>)])
       (Some ''/mnt/data'') (Some ''raid1'')
     = ((Message ''Successfully started RAID conversion to raid1'', 200),
        [Called (resize_cmd ''raid1'' ''/mnt/data''), Called (balance_cmd ''raid1'' ''/mnt/data'')])"
proof -
  let ?r = "\<lparr>returncode = 1, stdout = [], stderr = ''ERROR: unable to resize''\<rparr>"
  let ?ra = "\<lparr>returncode = 0, stdout = ''Done'', stderr = []\<rparr>"
  let ?w = "host [(resize_cmd ''raid1'' ''/mnt/data'', ?r), (balance_cmd ''raid1'' ''/mnt/data'', ?ra)]"
  have v: "''raid1'' \<in> set valid_profiles"
    by (simp add: valid_profiles_def)
  have e1: "exec ?w (resize_cmd ''raid1'' ''/mnt/data'') = Inr ?r"
    by (simp add: host_def)
  have e2: "exec ?w (balance_cmd ''raid1'' ''/mnt/data'') = Inr ?ra"
    by (simp add: host_def resize_cmd_def balance_cmd_def)
  have "fst (api_change_raid ?w (Some ''/mnt/data'') (Some ''raid1''))
        = (Message (''Successfully started RAID conversion to '' @ ''raid1''), 200)"
    using api_change_raid_fallback [OF v, of ?w "''/mnt/data''" ?r ?ra, THEN conjunct1] e1 e2
    by simp
  moreover have "snd (api_change_raid ?w (Some ''/mnt/data'') (Some ''raid1''))
                 = [Called (resize_cmd ''raid1'' ''/mnt/data''), Called (balance_cmd ''raid1'' ''/mnt/data'')]"
    using v e1 e2 by (simp add: api_change_raid_def)
  ultimately show ?thesis
    using v by (simp add: prod_eq_iff)
qed

end
